theory Spec2Isabelle
  imports Complex_Main
begin

section \<open>Shared vocabulary of the page scripts\<close>

text \<open>
  The repository holds three versions of the page controller: a static prototype
  (\<^verbatim>\<open>part_000\<close>), the prototype with a mode-dependent uploader (\<^verbatim>\<open>Main.js\<close>), both
  with a simulated detection, and the backend-integrated controller (\<^verbatim>\<open>part_001\<close>).
  The page markup is not among the sources. The three tabs carry the \<^verbatim>\<open>data-tab\<close>
  values \<^verbatim>\<open>text\<close>, \<^verbatim>\<open>image\<close> and \<^verbatim>\<open>video\<close> (the selectors of \<^verbatim>\<open>translateUIElements\<close>).
\<close>

datatype tab = Text | Image | Video

text \<open>A browser \<^verbatim>\<open>File\<close>: its name, declared media type and byte size.\<close>

record js_file =
  file_name :: string
  file_type :: string
  file_size :: nat

text \<open>The glyphs the scripts write into icon slots.\<close>

datatype icon = Video_icon | Image_icon | Document_icon | Warning_icon | Check_icon

subsection \<open>JavaScript library functions used by the scripts\<close>

text \<open>\<^verbatim>\<open>String.prototype.startsWith\<close> and \<^verbatim>\<open>String.prototype.includes\<close>.\<close>

definition startsWith :: "string \<Rightarrow> string \<Rightarrow> bool" where
  "startsWith s p = (take (length p) s = p)"

fun str_includes :: "string \<Rightarrow> string \<Rightarrow> bool" where
  "str_includes [] p = (p = [])"
| "str_includes (c # cs) p = (startsWith (c # cs) p \<or> str_includes cs p)"

text \<open>
  Numbers. A finite JavaScript number is a rational; \<^verbatim>\<open>Math.round\<close> returns the nearest
  integer, the one closer to plus infinity on a tie. Converting an integer number to a
  string gives its decimal digits (for magnitudes below \<open>10^21\<close>, which covers every
  percentage).
\<close>

definition Math_round :: "rat \<Rightarrow> int" where
  "Math_round x = \<lfloor>x + 1 / 2\<rfloor>"

fun digits :: "nat \<Rightarrow> string" where
  "digits n = (if n < 10 then [''0123456789'' ! n]
               else digits (n div 10) @ [''0123456789'' ! (n mod 10)])"

declare digits.simps [simp del]

definition String_of :: "int \<Rightarrow> string" where
  "String_of i = (if i < 0 then ''-'' @ digits (nat (- i)) else digits (nat i))"

text \<open>\<^verbatim>\<open>a || b\<close> on strings that may be absent: the empty string is falsy too.\<close>

definition or_else :: "string option \<Rightarrow> string \<Rightarrow> string" where
  "or_else a b = (case a of None \<Rightarrow> b | Some s \<Rightarrow> if s = [] then b else s)"

text \<open>
  The markup the scripts write into the heading slot through \<^verbatim>\<open>innerHTML\<close>: the heading
  text, a space, and the badge element around the badge text. Both texts go into the
  markup as they are, without escaping (character 34 is the double quote).
\<close>

definition heading_template :: "string \<Rightarrow> string \<Rightarrow> string" where
  "heading_template headingText badgeText =
     headingText @ '' <span class='' @ [CHR 0x22] @ ''badge'' @ [CHR 0x22] @ '' id='' @
     [CHR 0x22] @ ''confidenceBadge'' @ [CHR 0x22] @ ''>'' @ badgeText @ ''</span>''"

text \<open>What a handler does to the outside world: a blocking alert or a network request.\<close>

record request =
  req_method :: string
  req_url :: string
  req_file :: js_file

datatype effect = Alert string | Fetch request

section \<open>The backend-integrated controller\<close>

subsection \<open>Configuration and tables\<close>

definition API_BASE_URL :: string where
  "API_BASE_URL = ''http://127.0.0.1:8000''"

definition LANGUAGE_MAP :: "string \<Rightarrow> string option" where
  "LANGUAGE_MAP l =
     (if l = ''English'' then Some ''en''
      else if l = ''isiZulu'' then Some ''zu''
      else if l = ''isiXhosa'' then Some ''xh''
      else if l = ''Sesotho'' then Some ''st''
      else if l = ''Afrikaans'' then Some ''af''
      else None)"

record translation =
  heroTitle :: string
  heroDesc :: string
  tabText :: string
  tabImage :: string
  tabVideo :: string
  checkBtn :: string
  resultsTitle :: string
  whatYouCanDo :: string
  howToSpot :: string
  footerText :: string
  fileSelected :: string
  noFileSelected :: string

definition trans_en :: translation where
  "trans_en = \<lparr>
     heroTitle = ''Protect yourself from AI-generated content'',
     heroDesc = ''Analyze text, images, and videos to detect AI-generated content. Get education and insights to protect yourself from misinformation and scams.'',
     tabText = ''Text'',
     tabImage = ''Image'',
     tabVideo = ''Video'',
     checkBtn = ''Check Content'',
     resultsTitle = ''Detection Results'',
     whatYouCanDo = ''What You Can Do'',
     howToSpot = ''How to Spot AI Content'',
     footerText = ''Protecting South African communities from digital deception'',
     fileSelected = ''File selected'',
     noFileSelected = ''No file selected'' \<rparr>"

definition trans_zu :: translation where
  "trans_zu = \<lparr>
     heroTitle = ''Zivikele kokuqukethwe okudalwe yi-AI'',
     heroDesc = ''Hlaziya umbhalo, izithombe, namavidiyo ukuthola okuqukethwe okudalwe yi-AI. Thola imfundo nolwazi lokuzivikela ekwaziseni okungalungile nasemakhameni.'',
     tabText = ''Umbhalo'',
     tabImage = ''Isithombe'',
     tabVideo = ''Ividiyo'',
     checkBtn = ''Hlola Okuqukethwe'',
     resultsTitle = ''Imiphumela Yokuhlola'',
     whatYouCanDo = ''Ongakwenza'',
     howToSpot = ''Indlela Yokubona Okuqukethwe Kwe-AI'',
     footerText = ''Sivikela imiphakathi yaseNingizimu Afrika ekukhohliseni kwedijithali'',
     fileSelected = ''Ifayela likhethiwe'',
     noFileSelected = ''Alikho ifayela elikhethiwe'' \<rparr>"

definition trans_xh :: translation where
  "trans_xh = \<lparr>
     heroTitle = ''Zikhusele kumxholo oveliswe yi-AI'',
     heroDesc = ''Hlalutya umbhalo, imifanekiso, neevidiyo ukufumanisa umxholo oveliswe yi-AI. Fumana imfundo nolwazi lokuzikhusela kulwazi olungalunganga nakubuqhophololo.'',
     tabText = ''Umbhalo'',
     tabImage = ''Umfanekiso'',
     tabVideo = ''Ividiyo'',
     checkBtn = ''Hlola Umxholo'',
     resultsTitle = ''Iziphumo Zokuhlola'',
     whatYouCanDo = ''Into Onokuyenza'',
     howToSpot = ''Indlela Yokubona Umxholo We-AI'',
     footerText = ''Sikhusela uluntu lwaseMzantsi Afrika ekukhohliseni kwedijithali'',
     fileSelected = ''Ifayile ikhethiwe'',
     noFileSelected = ''Akukho fayile ekhethiweyo'' \<rparr>"

definition trans_st :: translation where
  "trans_st = \<lparr>
     heroTitle = ''Itshireletse ho diteng tse hlahisitsweng ke AI'',
     heroDesc = ''Manollo mongolo, ditshwantsho, le divideo ho fumana diteng tse hlahisitsweng ke AI. Fumana thuto le tsebo ya ho itshireletsa ho tshediso e fosahetseng le dikgoka.'',
     tabText = ''Mongolo'',
     tabImage = ''Setshwantsho'',
     tabVideo = ''Video'',
     checkBtn = ''Hlahloba Diteng'',
     resultsTitle = ''Diphetho tsa Tlhahlobo'',
     whatYouCanDo = ''Seo o ka se etsang'',
     howToSpot = ''Mokhoa wa ho Bona Diteng tsa AI'',
     footerText = ''Ho sireletsa sechaba sa Afrika Borwa ho tsietso ya dijithale'',
     fileSelected = ''Faele e khethilwe'',
     noFileSelected = ''Ha ho faele e khethilweng'' \<rparr>"

text \<open>The Afrikaans table has one apostrophe and the letter e with circumflex (code 234).\<close>

definition trans_af :: translation where
  "trans_af = \<lparr>
     heroTitle = ''Beskerm jouself teen KI-gegenereerde inhoud'',
     heroDesc = ''Ontleed teks, beelde en video'' @ [CHR 0x27] @ ''s om KI-gegenereerde inhoud op te spoor. Kry opvoeding en insigte om jouself teen wanligting en boelstreke te beskerm.'',
     tabText = ''Teks'',
     tabImage = ''Beeld'',
     tabVideo = ''Video'',
     checkBtn = ''Kontroleer Inhoud'',
     resultsTitle = ''Opsporingsresultate'',
     whatYouCanDo = ''Wat Jy Kan Doen'',
     howToSpot = ''Hoe om KI-inhoud te Herken'',
     footerText = ''Beskerm Suid-Afrikaanse gemeenskappe teen digitale misleiding'',
     fileSelected = ''L'' @ [CHR 0xEA] @ ''er gekies'',
     noFileSelected = ''Geen l'' @ [CHR 0xEA] @ ''er gekies nie'' \<rparr>"

definition allTranslations :: "string \<Rightarrow> translation option" where
  "allTranslations l =
     (if l = ''en'' then Some trans_en
      else if l = ''zu'' then Some trans_zu
      else if l = ''xh'' then Some trans_xh
      else if l = ''st'' then Some trans_st
      else if l = ''af'' then Some trans_af
      else None)"

subsection \<open>Backend responses and normalised results\<close>

text \<open>
  The fields the analysers read from the parsed response body, typed as the backend
  contract types them: a \<^verbatim>\<open>detection_result\<close> object with a boolean
  \<^verbatim>\<open>is_ai_generated\<close>, a numeric \<^verbatim>\<open>confidence_score\<close> and three optional strings, next to
  opaque metadata of the mode and, for videos, the flag \<^verbatim>\<open>audio_info.has_audio\<close>.
  \<open>None\<close> is an absent field.
\<close>

type_synonym info = string

record detection_result =
  is_ai_generated :: bool
  confidence_score :: rat
  dr_message :: "string option"
  dr_warning :: "string option"
  confidence_label :: "string option"

record response_data =
  detection :: detection_result
  video_info :: "info option"
  image_info :: "info option"
  document_info :: "info option"
  audio_has_audio :: "bool option"

text \<open>
  How a request settles. \<open>Transport_failure m\<close>: \<^verbatim>\<open>fetch\<close> rejects with message \<open>m\<close>.
  \<open>Http status body\<close>: a response arrived; its body is either unusable (\<^verbatim>\<open>response.json()\<close>
  rejects, or the parsed value has no \<^verbatim>\<open>detection_result\<close> so that reading a property of
  it throws; \<open>m\<close> is the message of that error) or well-shaped data.
\<close>

datatype body = Unusable string | Data response_data

datatype outcome = Transport_failure string | Http nat body

text \<open>\<^verbatim>\<open>response.ok\<close>: the status is in the range 200 to 299.\<close>

definition response_ok :: "nat \<Rightarrow> bool" where
  "response_ok status = (200 \<le> status \<and> status \<le> 299)"

record result =
  rtype :: string
  isAI :: bool
  confidence :: rat
  message :: string
  warning :: string
  confidenceLabel :: string
  details :: "info option"
  hasAudio :: "bool option"

text \<open>
  Each \<^verbatim>\<open>analyze\<close> function is asynchronous. Its part before the first \<^verbatim>\<open>await\<close> builds
  the one request; its part after the response either throws (\<open>Inl\<close> the error
  message) or returns the normalised result.
\<close>

definition analyzeVideo_request :: "js_file \<Rightarrow> string \<Rightarrow> request" where
  "analyzeVideo_request f lang =
     \<lparr> req_method = ''POST'',
       req_url = API_BASE_URL @ ''/api/detect-with-audio?language='' @ lang,
       req_file = f \<rparr>"

definition analyzeVideo_result :: "outcome \<Rightarrow> string + result" where
  "analyzeVideo_result oc =
     (case oc of
        Transport_failure m \<Rightarrow> Inl m
      | Http status b \<Rightarrow>
          if \<not> response_ok status then Inl (''HTTP error! status: '' @ digits status)
          else (case b of
                  Unusable m \<Rightarrow> Inl m
                | Data d \<Rightarrow> Inr
                    \<lparr> rtype = ''video'',
                      isAI = is_ai_generated (detection d),
                      confidence = confidence_score (detection d),
                      message = or_else (dr_message (detection d)) [],
                      warning = or_else (dr_warning (detection d)) [],
                      confidenceLabel = or_else (confidence_label (detection d)) ''Confidence'',
                      details = video_info d,
                      hasAudio = Some (audio_has_audio d = Some True) \<rparr>))"

definition analyzeImage_request :: "js_file \<Rightarrow> string \<Rightarrow> request" where
  "analyzeImage_request f lang =
     \<lparr> req_method = ''POST'',
       req_url = API_BASE_URL @ ''/api/detect-image?language='' @ lang,
       req_file = f \<rparr>"

definition analyzeImage_result :: "outcome \<Rightarrow> string + result" where
  "analyzeImage_result oc =
     (case oc of
        Transport_failure m \<Rightarrow> Inl m
      | Http status b \<Rightarrow>
          if \<not> response_ok status then Inl (''HTTP error! status: '' @ digits status)
          else (case b of
                  Unusable m \<Rightarrow> Inl m
                | Data d \<Rightarrow> Inr
                    \<lparr> rtype = ''image'',
                      isAI = is_ai_generated (detection d),
                      confidence = confidence_score (detection d),
                      message = or_else (dr_message (detection d)) [],
                      warning = or_else (dr_warning (detection d)) [],
                      confidenceLabel = or_else (confidence_label (detection d)) ''Confidence'',
                      details = image_info d,
                      hasAudio = None \<rparr>))"

definition analyzeDocument_request :: "js_file \<Rightarrow> string \<Rightarrow> request" where
  "analyzeDocument_request f lang =
     \<lparr> req_method = ''POST'',
       req_url = API_BASE_URL @ ''/api/detect-document?language='' @ lang,
       req_file = f \<rparr>"

definition analyzeDocument_result :: "outcome \<Rightarrow> string + result" where
  "analyzeDocument_result oc =
     (case oc of
        Transport_failure m \<Rightarrow> Inl m
      | Http status b \<Rightarrow>
          if \<not> response_ok status then Inl (''HTTP error! status: '' @ digits status)
          else (case b of
                  Unusable m \<Rightarrow> Inl m
                | Data d \<Rightarrow> Inr
                    \<lparr> rtype = ''document'',
                      isAI = is_ai_generated (detection d),
                      confidence = confidence_score (detection d),
                      message = or_else (dr_message (detection d)) [],
                      warning = or_else (dr_warning (detection d)) [],
                      confidenceLabel = or_else (confidence_label (detection d)) ''Confidence'',
                      details = document_info d,
                      hasAudio = None \<rparr>))"

subsection \<open>The result presenter\<close>

text \<open>
  The slots \<^verbatim>\<open>displayResults\<close> writes: the status icon with its two colours, the two
  theme classes of the result card, the markup of the heading (the heading text and the
  badge, written as one template), the text of the description, the width of the
  progress bar and the list of the first accordion.
\<close>

record result_view =
  statusIcon :: icon
  statusIcon_backgroundColor :: string
  statusIcon_color :: string
  resultCard_ai_result :: bool
  resultCard_human_result :: bool
  resultHeading_innerHTML :: string
  resultDesc :: string
  progressFill_width :: string
  acc1Body :: "string list"

definition or_str :: "string \<Rightarrow> string \<Rightarrow> string" where
  "or_str a b = (if a = [] then b else a)"

definition updateAccordionContent :: "bool \<Rightarrow> string \<Rightarrow> string list" where
  "updateAccordionContent ai contentType =
     (if ai then
        [''Verify information from multiple trusted sources'',
         ''Look for the original source or creator'',
         ''Be cautious about sharing this content'',
         ''Report suspicious content to relevant platforms'']
      else
        [''This appears human-created, but always verify important information'',
         ''Check for updated information from the original source'',
         ''Consider the context and timing of the content''])"

text \<open>
  Every slot is overwritten, so the view after \<^verbatim>\<open>displayResults\<close> is a function of the
  result alone. The width is the one set at once; the deferred one is \<open>progress_target\<close>.
\<close>

definition progress_target :: "result \<Rightarrow> string" where
  "progress_target r = String_of (Math_round (confidence r)) @ ''%''"

definition displayResults_view :: "result \<Rightarrow> result_view" where
  "displayResults_view r =
     (let conf = Math_round (confidence r);
          customMessage = message r;
          warn = warning r;
          label = or_str (confidenceLabel r) ''Confidence''
      in if isAI r then
        \<lparr> statusIcon = Warning_icon,
          statusIcon_backgroundColor = ''#FFE8E8'',
          statusIcon_color = ''#D32F2F'',
          resultCard_ai_result = True,
          resultCard_human_result = False,
          resultHeading_innerHTML =
            heading_template (or_str customMessage ''Likely AI-Generated'')
              (label @ '': '' @ String_of conf @ ''%''),
          resultDesc =
            (if warn \<noteq> [] then warn
             else if rtype r = ''video'' then
               ''This video shows patterns consistent with AI generation. Look for unnatural movements, inconsistent lighting, or irregular facial features.''
             else if rtype r = ''image'' then
               ''This image appears to be AI-generated. Check for distorted hands, unusual textures, or impossible reflections.''
             else
               ''This text shows characteristics typical of AI writing. Notice the formal tone and lack of personal anecdotes.''),
          progressFill_width = ''0%'',
          acc1Body = updateAccordionContent (isAI r) (rtype r) \<rparr>
      else
        \<lparr> statusIcon = Check_icon,
          statusIcon_backgroundColor = ''#E6F7E6'',
          statusIcon_color = ''#74D480'',
          resultCard_ai_result = False,
          resultCard_human_result = True,
          resultHeading_innerHTML =
            heading_template (or_str customMessage ''Likely Human-Created'')
              (label @ '': '' @ String_of conf @ ''%''),
          resultDesc =
            (if warn \<noteq> [] then warn
             else if rtype r = ''video'' then
               ''The video displays natural motion, consistent lighting across frames, and authentic audio synchronization.''
             else if rtype r = ''image'' then
               ''This image shows characteristics of authentic photography with natural lighting and proper perspective.''
             else
               ''This text demonstrates natural human writing patterns with varied sentence structure and personal voice.''),
          progressFill_width = ''0%'',
          acc1Body = updateAccordionContent (isAI r) (rtype r) \<rparr>)"

subsection \<open>The state of the page\<close>

text \<open>
  The static text slots that \<^verbatim>\<open>translateUIElements\<close> rewrites (the fixed icon in front of
  a text is left out; the accordion headers keep their icon and symbol nodes).
\<close>

record labels =
  protectBtn_text :: string
  heroDesc_text :: string
  textTab_text :: string
  imageTab_text :: string
  videoTab_text :: string
  resultsTitle_text :: string
  acc1Header_text :: string
  acc2Header_text :: string
  footerPill_text :: string

text \<open>The three analysers a suspended submit handler can be waiting in.\<close>

datatype analyzer = AnalyzeVideo | AnalyzeImage | AnalyzeDocument

text \<open>
  The three global variables, the handler invocations suspended at an \<^verbatim>\<open>await\<close>
  (\<open>pending\<close>), the widths that pending timeouts will set (\<open>timers\<close>), and the parts
  of the document that the script reads or writes.
\<close>

record bstate =
  currentLanguage :: string
  currentFile :: "js_file option"
  currentTab :: tab
  pending :: "analyzer list"
  timers :: "string list"
  uploader_active :: bool
  results_active :: bool
  langMenu_shown :: bool
  langBtn_text :: string
  active_tabs :: "tab set"
  fileInput_accept :: string
  fileInput_files :: "js_file option"
  fileName :: string
  fileIcon :: icon
  fileSub :: string
  checkBtn_disabled :: bool
  checkBtn_text :: string
  labels :: labels
  view :: result_view

subsection \<open>Start of the page\<close>

text \<open>
  \<open>page\<close> is the document as the markup builds it. The script's top level initialises
  the globals; \<^verbatim>\<open>initializeApp\<close> then sets the two panels and hides the language menu
  (\<^verbatim>\<open>initLanguageDropdown\<close>); the other initialisers only register handlers. The health
  probe sent at load time belongs to no handler and is left out.
\<close>

definition initializeApp :: "bstate \<Rightarrow> bstate" where
  "initializeApp s = s\<lparr> uploader_active := True, results_active := False,
                        langMenu_shown := False \<rparr>"

definition page_load :: "bstate \<Rightarrow> bstate" where
  "page_load page =
     initializeApp (page\<lparr> currentLanguage := ''en'', currentFile := None,
                           currentTab := Video, pending := [], timers := [] \<rparr>)"

subsection \<open>Translation of the page\<close>

definition translateUIElements :: "string \<Rightarrow> bstate \<Rightarrow> bstate" where
  "translateUIElements language s =
     (let trans = (case allTranslations language of Some t \<Rightarrow> t | None \<Rightarrow> trans_en)
      in s\<lparr> labels :=
               \<lparr> protectBtn_text = heroTitle trans,
                 heroDesc_text = heroDesc trans,
                 textTab_text = tabText trans,
                 imageTab_text = tabImage trans,
                 videoTab_text = tabVideo trans,
                 resultsTitle_text = resultsTitle trans,
                 acc1Header_text = whatYouCanDo trans @ '' '',
                 acc2Header_text = howToSpot trans @ '' '',
                 footerPill_text = footerText trans \<rparr>,
             checkBtn_text :=
               (if \<not> checkBtn_disabled s then checkBtn trans else checkBtn_text s),
             fileSub :=
               (if str_includes (fileSub s) ''selected'' then
                  (if fileName s \<noteq> ''No file selected'' then fileSelected trans
                   else noFileSelected trans)
                else fileSub s) \<rparr>)"

definition translatePage :: "string \<Rightarrow> bstate \<Rightarrow> bstate" where
  "translatePage language s = translateUIElements language s"

subsection \<open>Handlers\<close>

definition langBtn_click :: "bstate \<Rightarrow> bstate" where
  "langBtn_click s = s\<lparr> langMenu_shown := \<not> langMenu_shown s \<rparr>"

text \<open>The document-level listener, for a click outside the menu and its button.\<close>

definition document_click :: "bstate \<Rightarrow> bstate" where
  "document_click s = s\<lparr> langMenu_shown := False \<rparr>"

definition langItem_click :: "string \<Rightarrow> bstate \<Rightarrow> bstate" where
  "langItem_click selectedLang s =
     (let code = (case LANGUAGE_MAP selectedLang of Some c \<Rightarrow> c | None \<Rightarrow> ''en'')
      in translatePage code
           (s\<lparr> currentLanguage := code, langBtn_text := selectedLang,
                langMenu_shown := False \<rparr>))"

definition tab_click :: "tab \<Rightarrow> bstate \<Rightarrow> bstate" where
  "tab_click t s =
     s\<lparr> active_tabs := {t},
         currentTab := t,
         fileInput_accept :=
           (case t of
              Text \<Rightarrow> ''.txt,.pdf,.docx,.doc''
            | Image \<Rightarrow> ''.jpg,.jpeg,.png,.webp,.bmp''
            | Video \<Rightarrow> ''.mp4,.mov,.avi,.mkv,.webm'') \<rparr>"

text \<open>The argument is \<^verbatim>\<open>e.target.files[0]\<close>: \<open>None\<close> when the file list is empty.\<close>

definition fileInput_change :: "js_file option \<Rightarrow> bstate \<Rightarrow> bstate" where
  "fileInput_change fo s =
     (case fo of
        None \<Rightarrow> s
      | Some f \<Rightarrow>
          s\<lparr> currentFile := Some f,
              fileName := file_name f,
              fileIcon :=
                (if startsWith (file_type f) ''video/'' then Video_icon
                 else if startsWith (file_type f) ''image/'' then Image_icon
                 else Document_icon) \<rparr>)"

text \<open>A drop with a file puts it into the input and dispatches the change event.\<close>

definition dropArea_drop :: "js_file option \<Rightarrow> bstate \<Rightarrow> bstate" where
  "dropArea_drop fo s =
     (case fo of
        None \<Rightarrow> s
      | Some f \<Rightarrow> fileInput_change (Some f) (s\<lparr> fileInput_files := Some f \<rparr>))"

definition clearBtn_click :: "bstate \<Rightarrow> bstate" where
  "clearBtn_click s =
     s\<lparr> fileInput_files := None,
         currentFile := None,
         fileName := ''No file selected'',
         uploader_active := True,
         results_active := False \<rparr>"

text \<open>
  The submit handler up to its first \<^verbatim>\<open>await\<close>: the guard, the loading state, and the
  request of the analyser chosen by the current tab.
\<close>

definition checkBtn_click :: "bstate \<Rightarrow> bstate \<times> effect list" where
  "checkBtn_click s =
     (case currentFile s of
        None \<Rightarrow> (s, [Alert ''Please select a file first!''])
      | Some f \<Rightarrow>
          (let s1 = s\<lparr> checkBtn_disabled := True, checkBtn_text := ''Analyzing...'' \<rparr>
           in case currentTab s of
                Video \<Rightarrow> (s1\<lparr> pending := pending s1 @ [AnalyzeVideo] \<rparr>,
                           [Fetch (analyzeVideo_request f (currentLanguage s))])
              | Image \<Rightarrow> (s1\<lparr> pending := pending s1 @ [AnalyzeImage] \<rparr>,
                           [Fetch (analyzeImage_request f (currentLanguage s))])
              | Text \<Rightarrow> (s1\<lparr> pending := pending s1 @ [AnalyzeDocument] \<rparr>,
                          [Fetch (analyzeDocument_request f (currentLanguage s))])))"

definition displayResults :: "result \<Rightarrow> bstate \<Rightarrow> bstate" where
  "displayResults r s =
     s\<lparr> view := displayResults_view r, timers := timers s @ [progress_target r] \<rparr>"

definition analyze_result :: "analyzer \<Rightarrow> outcome \<Rightarrow> string + result" where
  "analyze_result a oc =
     (case a of
        AnalyzeVideo \<Rightarrow> analyzeVideo_result oc
      | AnalyzeImage \<Rightarrow> analyzeImage_result oc
      | AnalyzeDocument \<Rightarrow> analyzeDocument_result oc)"

text \<open>
  The rest of the submit handler, run when the awaited request settles: the \<^verbatim>\<open>try\<close>
  body, the \<^verbatim>\<open>catch\<close> clause and the \<^verbatim>\<open>finally\<close> clause.
\<close>

definition finally_clause :: "bstate \<Rightarrow> bstate" where
  "finally_clause s = s\<lparr> checkBtn_disabled := False, checkBtn_text := ''Check Content'' \<rparr>"

definition checkBtn_settle :: "analyzer \<Rightarrow> outcome \<Rightarrow> bstate \<Rightarrow> bstate \<times> effect list" where
  "checkBtn_settle a oc s =
     (case analyze_result a oc of
        Inl msg \<Rightarrow> (finally_clause s, [Alert (''Error: '' @ msg)])
      | Inr r \<Rightarrow>
          (finally_clause
             ((displayResults r s)\<lparr> uploader_active := False, results_active := True \<rparr>),
           []))"

subsection \<open>Events\<close>

text \<open>
  What can happen to the page. A click on a tab, on Clear or on Check bubbles to the
  document listener after its own handler; the click on the language button stops the
  propagation, and a click on a language item is inside the menu. A disabled button
  dispatches no click event at all. \<open>On_response i oc\<close>: the request of the \<open>i\<close>-th
  suspended handler settles with \<open>oc\<close>. \<open>On_timeout\<close>: the oldest timer fires.
\<close>

datatype event =
    On_langBtn
  | On_outside
  | On_langItem string
  | On_tab tab
  | On_change "js_file option"
  | On_drop "js_file option"
  | On_clear
  | On_check
  | On_response nat outcome
  | On_timeout

fun step :: "event \<Rightarrow> bstate \<Rightarrow> bstate \<times> effect list" where
  "step On_langBtn s = (langBtn_click s, [])"
| "step On_outside s = (document_click s, [])"
| "step (On_langItem l) s = (langItem_click l s, [])"
| "step (On_tab t) s = (document_click (tab_click t s), [])"
| "step (On_change fo) s = (fileInput_change fo (s\<lparr> fileInput_files := fo \<rparr>), [])"
| "step (On_drop fo) s = (dropArea_drop fo s, [])"
| "step On_clear s = (document_click (clearBtn_click s), [])"
| "step On_check s =
     (if checkBtn_disabled s then (s, [])
      else (case checkBtn_click s of (s', out) \<Rightarrow> (document_click s', out)))"
| "step (On_response i oc) s =
     (if i < length (pending s) then
        checkBtn_settle (pending s ! i) oc
          (s\<lparr> pending := take i (pending s) @ drop (Suc i) (pending s) \<rparr>)
      else (s, []))"
| "step On_timeout s =
     (case timers s of
        [] \<Rightarrow> (s, [])
      | w # ws \<Rightarrow> (s\<lparr> timers := ws, view := (view s)\<lparr> progressFill_width := w \<rparr> \<rparr>, []))"

text \<open>A run of events from a state: the final state and everything emitted, in order.\<close>

fun run :: "event list \<Rightarrow> bstate \<Rightarrow> bstate \<times> effect list" where
  "run [] s = (s, [])"
| "run (e # es) s =
     (case step e s of (s', out) \<Rightarrow> (case run es s' of (s'', out') \<Rightarrow> (s'', out @ out')))"

section \<open>The prototype with the mode-dependent uploader\<close>

text \<open>
  \<^verbatim>\<open>Main.js\<close> rebuilds the content of the drop area for every mode: a text area, or a
  file input with its preview block. Its detection is simulated and sends nothing.
\<close>

definition data_tab :: "tab \<Rightarrow> string" where
  "data_tab t = (case t of Text \<Rightarrow> ''text'' | Image \<Rightarrow> ''image'' | Video \<Rightarrow> ''video'')"

record file_widget =
  accept :: string
  files :: "js_file option"
  preview_icon :: icon
  preview_fileName :: string
  preview_fileSub :: string

datatype widget = TextArea string | FileInput file_widget

record mstate =
  currentMode :: tab
  dropArea :: widget
  m_uploader_active :: bool
  m_results_active :: bool
  m_langMenu_shown :: bool
  m_langBtn_text :: string
  m_active_tabs :: "tab set"
  m_statusIcon :: icon
  m_resultHeading_innerHTML :: string
  m_resultDesc :: string
  m_progressFill_width :: string
  m_timers :: "string list"

text \<open>What is staged in the current widget: typed text or a chosen file.\<close>

definition staged :: "widget \<Rightarrow> bool" where
  "staged w = (case w of TextArea v \<Rightarrow> v \<noteq> [] | FileInput fw \<Rightarrow> files fw \<noteq> None)"

definition updateUploader :: "tab \<Rightarrow> mstate \<Rightarrow> mstate" where
  "updateUploader mode s =
     s\<lparr> currentMode := mode,
         dropArea :=
           (if mode = Text then TextArea []
            else FileInput
              \<lparr> accept = (if mode = Image then ''image/*'' else ''video/*''),
                files = None,
                preview_icon = (if mode = Image then Image_icon else Video_icon),
                preview_fileName = ''No file selected'',
                preview_fileSub = ''Choose a '' @ data_tab mode @ '' file'' \<rparr>) \<rparr>"

text \<open>The top level of the script, run on the document as the markup builds it.\<close>

definition main_load :: "mstate \<Rightarrow> mstate" where
  "main_load page =
     (updateUploader Video
        (page\<lparr> m_uploader_active := True, m_results_active := False, m_timers := [] \<rparr>))
       \<lparr> m_langMenu_shown := False \<rparr>"

definition m_langBtn_click :: "mstate \<Rightarrow> mstate" where
  "m_langBtn_click s = s\<lparr> m_langMenu_shown := \<not> m_langMenu_shown s \<rparr>"

definition m_document_click :: "mstate \<Rightarrow> mstate" where
  "m_document_click s = s\<lparr> m_langMenu_shown := False \<rparr>"

definition m_langItem_click :: "string \<Rightarrow> mstate \<Rightarrow> mstate" where
  "m_langItem_click l s = s\<lparr> m_langBtn_text := l, m_langMenu_shown := False \<rparr>"

definition m_tab_click :: "tab \<Rightarrow> mstate \<Rightarrow> mstate" where
  "m_tab_click t s = updateUploader t (s\<lparr> m_active_tabs := {t} \<rparr>)"

text \<open>The change listener of the file input that \<^verbatim>\<open>updateUploader\<close> created.\<close>

definition newInput_change :: "js_file option \<Rightarrow> file_widget \<Rightarrow> file_widget" where
  "newInput_change fo fw =
     (case fo of
        Some f \<Rightarrow> fw\<lparr> files := fo, preview_fileName := file_name f \<rparr>
      | None \<Rightarrow> fw\<lparr> files := fo, preview_fileName := ''No file selected'' \<rparr>)"

definition m_clearBtn_click :: "mstate \<Rightarrow> mstate" where
  "m_clearBtn_click s =
     (updateUploader (currentMode s) s)\<lparr> m_uploader_active := True, m_results_active := False \<rparr>"

definition m_checkBtn_click :: "mstate \<Rightarrow> mstate \<times> effect list" where
  "m_checkBtn_click s =
     (let conf = 91
      in (s\<lparr> m_uploader_active := True,
             m_results_active := True,
             m_statusIcon := Check_icon,
             m_resultHeading_innerHTML :=
               heading_template ''Likely Human-Created''
                 (''Confidence: '' @ String_of conf @ ''%''),
             m_resultDesc :=
               (if currentMode s = Text then
                  ''The writing style appears natural and contextually coherent.''
                else if currentMode s = Image then
                  ''The image shows realistic lighting, proportions, and metadata.''
                else ''The video displays natural motion and authentic audio sync.''),
             m_progressFill_width := ''0%'',
             m_timers := m_timers s @ [String_of conf @ ''%''] \<rparr>,
          []))"

text \<open>
  Events of this page: as before, with typing into the text area (\<open>M_input\<close>) and
  without responses, since nothing is ever sent.
\<close>

datatype m_event =
    M_langBtn
  | M_outside
  | M_langItem string
  | M_tab tab
  | M_change "js_file option"
  | M_input string
  | M_clear
  | M_check
  | M_timeout

fun m_step :: "m_event \<Rightarrow> mstate \<Rightarrow> mstate \<times> effect list" where
  "m_step M_langBtn s = (m_langBtn_click s, [])"
| "m_step M_outside s = (m_document_click s, [])"
| "m_step (M_langItem l) s = (m_langItem_click l s, [])"
| "m_step (M_tab t) s = (m_document_click (m_tab_click t s), [])"
| "m_step (M_change fo) s =
     (case dropArea s of
        FileInput fw \<Rightarrow> (s\<lparr> dropArea := FileInput (newInput_change fo fw) \<rparr>, [])
      | TextArea v \<Rightarrow> (s, []))"
| "m_step (M_input v) s =
     (case dropArea s of
        TextArea old \<Rightarrow> (s\<lparr> dropArea := TextArea v \<rparr>, [])
      | FileInput fw \<Rightarrow> (s, []))"
| "m_step M_clear s = (m_document_click (m_clearBtn_click s), [])"
| "m_step M_check s =
     (case m_checkBtn_click s of (s', out) \<Rightarrow> (m_document_click s', out))"
| "m_step M_timeout s =
     (case m_timers s of
        [] \<Rightarrow> (s, [])
      | w # ws \<Rightarrow> (s\<lparr> m_timers := ws, m_progressFill_width := w \<rparr>, []))"

fun m_run :: "m_event list \<Rightarrow> mstate \<Rightarrow> mstate \<times> effect list" where
  "m_run [] s = (s, [])"
| "m_run (e # es) s =
     (case m_step e s of (s', out) \<Rightarrow> (case m_run es s' of (s'', out') \<Rightarrow> (s'', out @ out')))"

section \<open>The static prototype\<close>

text \<open>
  \<^verbatim>\<open>part_000\<close> has one fixed file input and a simulated detection. Only its panels, its
  file name display and its result slots are modelled.
\<close>

record pstate =
  p_uploader_active :: bool
  p_results_active :: bool
  p_files :: "js_file option"
  p_fileName :: string
  p_statusIcon :: icon
  p_resultHeading_innerHTML :: string
  p_resultDesc :: string
  p_progressFill_width :: string
  p_timers :: "string list"

definition prototype_load :: "pstate \<Rightarrow> pstate" where
  "prototype_load page =
     page\<lparr> p_uploader_active := True, p_results_active := False,
           p_fileName := ''IMG_0650.MOV'', p_timers := [] \<rparr>"

definition p_fileInput_change :: "js_file option \<Rightarrow> pstate \<Rightarrow> pstate" where
  "p_fileInput_change fo s =
     (case fo of
        Some f \<Rightarrow> s\<lparr> p_files := fo, p_fileName := file_name f \<rparr>
      | None \<Rightarrow> s\<lparr> p_files := fo, p_fileName := ''No file selected'' \<rparr>)"

definition p_clearBtn_click :: "pstate \<Rightarrow> pstate" where
  "p_clearBtn_click s =
     s\<lparr> p_files := None, p_fileName := ''No file selected'',
         p_uploader_active := True, p_results_active := False \<rparr>"

definition p_checkBtn_click :: "pstate \<Rightarrow> pstate \<times> effect list" where
  "p_checkBtn_click s =
     (let conf = 91
      in (s\<lparr> p_uploader_active := False,
             p_results_active := True,
             p_statusIcon := Check_icon,
             p_resultHeading_innerHTML :=
               heading_template ''Likely Human-Created''
                 (''Confidence: '' @ String_of conf @ ''%''),
             p_resultDesc :=
               ''The video displays natural motion, consistent lighting across frames, and authentic audio synchronization.'',
             p_progressFill_width := ''0%'',
             p_timers := p_timers s @ [String_of conf @ ''%''] \<rparr>,
          []))"

section \<open>Sample inputs\<close>

text \<open>A document as some markup could build it, a video file and a response.\<close>

definition sample_view :: result_view where
  "sample_view =
     \<lparr> statusIcon = Check_icon, statusIcon_backgroundColor = [], statusIcon_color = [],
       resultCard_ai_result = False, resultCard_human_result = False,
       resultHeading_innerHTML = [], resultDesc = [],
       progressFill_width = ''0%'', acc1Body = [] \<rparr>"

definition sample_page :: bstate where
  "sample_page =
     \<lparr> currentLanguage = [], currentFile = None, currentTab = Video, pending = [],
       timers = [], uploader_active = False, results_active = False,
       langMenu_shown = False, langBtn_text = ''English'', active_tabs = {Video},
       fileInput_accept = ''video/*'', fileInput_files = None,
       fileName = ''No file selected'', fileIcon = Video_icon,
       fileSub = ''No file selected'', checkBtn_disabled = False,
       checkBtn_text = ''Check Content'',
       labels = \<lparr> protectBtn_text = [], heroDesc_text = [], textTab_text = ''Text'',
                  imageTab_text = ''Image'', videoTab_text = ''Video'',
                  resultsTitle_text = [], acc1Header_text = [], acc2Header_text = [],
                  footerPill_text = [] \<rparr>,
       view = sample_view \<rparr>"

definition sample_file :: js_file where
  "sample_file = \<lparr> file_name = ''clip.mp4'', file_type = ''video/mp4'', file_size = 1048576 \<rparr>"

definition sample_main_page :: mstate where
  "sample_main_page =
     \<lparr> currentMode = Video, dropArea = TextArea [], m_uploader_active = False,
       m_results_active = False, m_langMenu_shown = False, m_langBtn_text = ''English'',
       m_active_tabs = {Video}, m_statusIcon = Check_icon,
       m_resultHeading_innerHTML = [], m_resultDesc = [], m_progressFill_width = ''0%'',
       m_timers = [] \<rparr>"

definition sample_data :: response_data where
  "sample_data =
     \<lparr> detection = \<lparr> is_ai_generated = False, confidence_score = 438 / 5,
                       dr_message = None, dr_warning = None, confidence_label = None \<rparr>,
       video_info = None, image_info = None, document_info = None,
       audio_has_audio = None \<rparr>"

section \<open>Vocabulary of the properties\<close>

text \<open>The network requests and the alerts among the emitted effects.\<close>

fun requests :: "effect list \<Rightarrow> request list" where
  "requests [] = []"
| "requests (Alert m # es) = requests es"
| "requests (Fetch r # es) = r # requests es"

fun alerts :: "effect list \<Rightarrow> string list" where
  "alerts [] = []"
| "alerts (Alert m # es) = m # alerts es"
| "alerts (Fetch r # es) = alerts es"

text \<open>The number that a string of decimal digits denotes.\<close>

definition digit_value :: "char \<Rightarrow> nat" where
  "digit_value c = of_char c - 48"

definition decimal_value :: "string \<Rightarrow> nat" where
  "decimal_value s = foldl (\<lambda>a c. 10 * a + digit_value c) 0 s"

text \<open>
  A non-success transport outcome: the request failed in transport, or the response
  carries a status outside the success range.
\<close>

fun non_success :: "outcome \<Rightarrow> bool" where
  "non_success (Transport_failure m) = True"
| "non_success (Http status b) = (\<not> response_ok status)"

text \<open>The discipline of the submit button: a suspended handler keeps it disabled.\<close>

definition single_flight :: "bstate \<Rightarrow> bool" where
  "single_flight s = (length (pending s) \<le> 1 \<and> (pending s \<noteq> [] \<longrightarrow> checkBtn_disabled s))"

text \<open>Exactly one of the two panels is active.\<close>

definition one_panel :: "bstate \<Rightarrow> bool" where
  "one_panel s = (uploader_active s \<noteq> results_active s)"

section \<open>Properties of the controllers\<close>

lemmas handler_defs =
  fileInput_change_def dropArea_drop_def clearBtn_click_def tab_click_def
  langBtn_click_def document_click_def langItem_click_def translatePage_def
  translateUIElements_def checkBtn_click_def checkBtn_settle_def finally_clause_def
  displayResults_def

lemmas request_defs =
  analyzeVideo_request_def analyzeImage_request_def analyzeDocument_request_def

lemmas load_defs =
  page_load_def initializeApp_def sample_page_def sample_view_def sample_file_def
  startsWith_def LANGUAGE_MAP_def allTranslations_def Let_def

subsection \<open>Staging and clearing a file\<close>

text \<open>
  C10. In the backend-integrated controller a change event of the file input with an
  empty file list leaves the staged file and the displayed file name as they were, and
  whatever the event, a staged file is gone afterwards only if the event was the click
  on Clear.
\<close>

theorem empty_change_keeps_staged_file:
  "currentFile (fst (step (On_change None) s)) = currentFile s \<and>
   fileName (fst (step (On_change None) s)) = fileName s \<and>
   (\<forall>e. currentFile s \<noteq> None \<and> currentFile (fst (step e s)) = None \<longrightarrow> e = On_clear)"
proof (intro conjI allI impI)
  show "currentFile (fst (step (On_change None) s)) = currentFile s"
    by (simp add: fileInput_change_def)
  show "fileName (fst (step (On_change None) s)) = fileName s"
    by (simp add: fileInput_change_def)
next
  fix e
  assume a: "currentFile s \<noteq> None \<and> currentFile (fst (step e s)) = None"
  show "e = On_clear"
  proof (cases e)
    case (On_response i oc)
    with a show ?thesis
      by (auto simp: handler_defs split: if_splits sum.splits)
  next
    case On_check
    with a show ?thesis
      by (auto simp: handler_defs Let_def split: if_splits option.splits tab.splits)
  qed (use a in \<open>auto simp: handler_defs Let_def split: option.splits list.splits\<close>)
qed

theorem empty_change_keeps_staged_file_witness:
  "currentFile (fst (step (On_change None)
       (fst (run [On_change (Some sample_file)] (page_load sample_page))))) = Some sample_file \<and>
   currentFile (fst (step On_clear
       (fst (run [On_change (Some sample_file)] (page_load sample_page))))) = None"
  using empty_change_keeps_staged_file
    [of "fst (run [On_change (Some sample_file)] (page_load sample_page))"]
  by (simp add: handler_defs load_defs)

subsection \<open>Submitting\<close>

text \<open>
  C1, as the code has it. In the backend-integrated controller a submit with no staged
  file sends nothing: its handler raises the alert asking for a file and returns the
  state it was given, and as an event the click changes at most the language menu,
  which any click outside the menu closes. The simulated submit of \<^verbatim>\<open>Main.js\<close> sends
  nothing either, but it checks nothing: it raises no alert and shows its result.
\<close>

theorem empty_submit_sends_nothing:
  "(currentFile s = None \<longrightarrow>
      checkBtn_click s = (s, [Alert ''Please select a file first!'']) \<and>
      requests (snd (step On_check s)) = [] \<and>
      fst (step On_check s) = (if checkBtn_disabled s then s else document_click s)) \<and>
   snd (m_checkBtn_click m) = [] \<and>
   m_results_active (fst (m_checkBtn_click m))"
  by (simp add: checkBtn_click_def m_checkBtn_click_def)

theorem empty_submit_sends_nothing_witness:
  "currentFile (page_load sample_page) = None \<and>
   alerts (snd (step On_check (page_load sample_page))) = [''Please select a file first!''] \<and>
   fst (step On_check (page_load sample_page)) = page_load sample_page"
  using empty_submit_sends_nothing [of "page_load sample_page"]
  by (simp add: load_defs document_click_def)

text \<open>
  The claim as the specification words it fails on \<^verbatim>\<open>Main.js\<close>: right after loading
  nothing is staged, and the click on Check raises no alert and activates the results
  panel.
\<close>

theorem empty_submit_counterexample:
  "\<not> staged (dropArea (main_load sample_main_page)) \<and>
   \<not> m_results_active (main_load sample_main_page) \<and>
   alerts (snd (m_step M_check (main_load sample_main_page))) = [] \<and>
   m_results_active (fst (m_step M_check (main_load sample_main_page))) \<and>
   fst (m_step M_check (main_load sample_main_page)) \<noteq> main_load sample_main_page"
proof -
  have "m_results_active (fst (m_step M_check (main_load sample_main_page)))"
    by (simp add: m_checkBtn_click_def m_document_click_def)
  moreover have "\<not> m_results_active (main_load sample_main_page)"
    by (simp add: main_load_def updateUploader_def)
  ultimately have "fst (m_step M_check (main_load sample_main_page)) \<noteq> main_load sample_main_page"
    by metis
  then show ?thesis
    by (simp add: m_checkBtn_click_def m_document_click_def main_load_def updateUploader_def
        staged_def)
qed

text \<open>
  C4. A submit with a staged file sends exactly one request: a POST to the endpoint of
  the current tab, with the current language as the \<^verbatim>\<open>language\<close> parameter and the
  staged file as its body. The rest of the handler, run when the request settles,
  sends nothing more.
\<close>

theorem submit_sends_one_request:
  assumes "currentFile s = Some f"
  shows "requests (snd (checkBtn_click s)) =
           [\<lparr> req_method = ''POST'',
              req_url = API_BASE_URL @
                (case currentTab s of
                   Video \<Rightarrow> ''/api/detect-with-audio''
                 | Image \<Rightarrow> ''/api/detect-image''
                 | Text \<Rightarrow> ''/api/detect-document'') @ ''?language='' @ currentLanguage s,
              req_file = f \<rparr>] \<and>
         alerts (snd (checkBtn_click s)) = [] \<and>
         (\<not> checkBtn_disabled s \<longrightarrow> snd (step On_check s) = snd (checkBtn_click s)) \<and>
         requests (snd (checkBtn_settle a oc s')) = []"
proof (intro conjI impI)
  show "requests (snd (checkBtn_click s)) =
           [\<lparr> req_method = ''POST'',
              req_url = API_BASE_URL @
                (case currentTab s of
                   Video \<Rightarrow> ''/api/detect-with-audio''
                 | Image \<Rightarrow> ''/api/detect-image''
                 | Text \<Rightarrow> ''/api/detect-document'') @ ''?language='' @ currentLanguage s,
              req_file = f \<rparr>]"
    using assms by (simp add: checkBtn_click_def request_defs Let_def split: tab.splits)
  show "alerts (snd (checkBtn_click s)) = []"
    using assms by (simp add: checkBtn_click_def Let_def split: tab.splits)
  show "\<not> checkBtn_disabled s \<Longrightarrow> snd (step On_check s) = snd (checkBtn_click s)"
    by (simp split: prod.splits)
  show "requests (snd (checkBtn_settle a oc s')) = []"
    by (simp add: checkBtn_settle_def split: sum.splits)
qed

theorem submit_sends_one_request_witness:
  "requests (snd (run [On_change (Some sample_file), On_tab Image, On_langItem ''isiXhosa'', On_check]
      (page_load sample_page))) =
     [\<lparr> req_method = ''POST'',
        req_url = ''http://127.0.0.1:8000/api/detect-image?language=xh'',
        req_file = sample_file \<rparr>]"
proof -
  let ?s = "fst (run [On_change (Some sample_file), On_tab Image, On_langItem ''isiXhosa'']
      (page_load sample_page))"
  have f: "currentFile ?s = Some sample_file"
    by (simp add: handler_defs load_defs)
  have d: "\<not> checkBtn_disabled ?s"
    by (simp add: handler_defs load_defs)
  have t: "currentTab ?s = Image" "currentLanguage ?s = ''xh''"
    by (simp_all add: handler_defs load_defs)
  have "requests (snd (step On_check ?s)) =
     [\<lparr> req_method = ''POST'',
        req_url = ''http://127.0.0.1:8000/api/detect-image?language=xh'',
        req_file = sample_file \<rparr>]"
    using submit_sends_one_request [OF f, of AnalyzeImage "Transport_failure []" ?s] d t
    by (simp add: API_BASE_URL_def)
  then show ?thesis
    by (simp add: handler_defs load_defs split: prod.splits)
qed

subsection \<open>One submission in flight\<close>

lemma fst_run_Cons: "fst (run (e # es) s) = fst (run es (fst (step e s)))"
  by (simp split: prod.splits)

lemma settle_button:
  assumes "i < length (pending s)"
  shows "pending (fst (step (On_response i oc) s)) = take i (pending s) @ drop (Suc i) (pending s)"
    and "\<not> checkBtn_disabled (fst (step (On_response i oc) s))"
    and "currentFile (fst (step (On_response i oc) s)) = currentFile s"
  using assms
  by (simp_all add: checkBtn_settle_def finally_clause_def displayResults_def split: sum.splits)

lemma single_flight_step: "single_flight s \<Longrightarrow> single_flight (fst (step e s))"
proof (cases e)
  case (On_response i oc)
  assume inv: "single_flight s"
  show ?thesis
  proof (cases "i < length (pending s)")
    case True
    from inv True have "length (take i (pending s) @ drop (Suc i) (pending s)) = 0"
      unfolding single_flight_def length_append length_take length_drop by linarith
    then have "take i (pending s) @ drop (Suc i) (pending s) = []"
      by (simp only: length_0_conv)
    with settle_button [OF True, of oc] On_response show ?thesis
      by (simp only: single_flight_def list.size) simp
  next
    case False
    with inv On_response show ?thesis by simp
  qed
next
  case On_check
  assume "single_flight s"
  with On_check show ?thesis
    by (auto simp: single_flight_def checkBtn_click_def document_click_def Let_def
        split: option.splits tab.splits)
qed (auto simp: single_flight_def handler_defs Let_def split: option.splits list.splits)

lemma single_flight_run: "single_flight s \<Longrightarrow> single_flight (fst (run es s))"
proof (induction es arbitrary: s)
  case Nil
  then show ?case by simp
next
  case (Cons e es)
  from Cons.prems have "single_flight (fst (step e s))"
    by (rule single_flight_step)
  then have "single_flight (fst (run es (fst (step e s))))"
    by (rule Cons.IH)
  then show ?case
    by (simp only: fst_run_Cons)
qed

lemma single_flight_load: "single_flight (page_load page)"
  by (simp add: single_flight_def page_load_def initializeApp_def)

lemma digits_500: "digits 500 = ''500''"
  by (simp add: digits.simps)

text \<open>
  C8. In every state the page reaches from its load, at most one submission is in
  flight. While one is, a click on Check emits nothing and leaves the state as it is.
  When the request settles, with any outcome, the button is enabled again and nothing
  is in flight, so that a click on Check with a staged file sends a request again.
\<close>

theorem resubmit_in_flight:
  assumes "s = fst (run es (page_load page))"
  shows "length (pending s) \<le> 1 \<and>
         (pending s \<noteq> [] \<longrightarrow> step On_check s = (s, [])) \<and>
         (\<forall>i oc. i < length (pending s) \<longrightarrow>
            \<not> checkBtn_disabled (fst (step (On_response i oc) s)) \<and>
            pending (fst (step (On_response i oc) s)) = [] \<and>
            (currentFile s \<noteq> None \<longrightarrow>
               length (requests (snd (step On_check (fst (step (On_response i oc) s))))) = 1))"
proof -
  have inv: "single_flight s"
    unfolding assms by (rule single_flight_run) (rule single_flight_load)
  then have one: "length (pending s) \<le> 1"
    by (simp add: single_flight_def)
  from inv have "pending s \<noteq> [] \<longrightarrow> step On_check s = (s, [])"
    by (simp add: single_flight_def)
  moreover have "\<not> checkBtn_disabled (fst (step (On_response i oc) s)) \<and>
      pending (fst (step (On_response i oc) s)) = [] \<and>
      (currentFile s \<noteq> None \<longrightarrow>
         length (requests (snd (step On_check (fst (step (On_response i oc) s))))) = 1)"
    if lt: "i < length (pending s)" for i oc
  proof -
    from one lt have "length (take i (pending s) @ drop (Suc i) (pending s)) = 0"
      unfolding length_append length_take length_drop by linarith
    then have e: "take i (pending s) @ drop (Suc i) (pending s) = []"
      by (simp only: length_0_conv)
    let ?t = "fst (step (On_response i oc) s)"
    have d: "\<not> checkBtn_disabled ?t" and p: "pending ?t = []"
      and c: "currentFile ?t = currentFile s"
      using settle_button [OF lt, of oc] e by simp_all
    have "length (requests (snd (step On_check ?t))) = 1" if "currentFile s \<noteq> None"
      using that d c
      by (auto simp: checkBtn_click_def Let_def simp del: step.simps(9)
          split: tab.splits option.splits)
    with d p show ?thesis
      by blast
  qed
  ultimately show ?thesis
    using one by blast
qed

theorem resubmit_in_flight_witness:
  "pending (fst (run [On_change (Some sample_file), On_check] (page_load sample_page)))
     = [AnalyzeVideo] \<and>
   snd (step On_check (fst (run [On_change (Some sample_file), On_check]
     (page_load sample_page)))) = [] \<and>
   \<not> checkBtn_disabled (fst (step (On_response 0 (Http 500 (Unusable [])))
     (fst (run [On_change (Some sample_file), On_check] (page_load sample_page))))) \<and>
   length (requests (snd (step On_check (fst (step (On_response 0 (Http 500 (Unusable [])))
     (fst (run [On_change (Some sample_file), On_check] (page_load sample_page)))))))) = 1"
proof -
  let ?s = "fst (run [On_change (Some sample_file), On_check] (page_load sample_page))"
  have p: "pending ?s = [AnalyzeVideo]"
    by (simp add: handler_defs load_defs)
  have f: "currentFile ?s \<noteq> None"
    by (simp add: handler_defs load_defs)
  from resubmit_in_flight [OF refl, of "[On_change (Some sample_file), On_check]" sample_page]
  show ?thesis
    using p f by (simp del: run.simps step.simps)
qed

text \<open>
  C5. When the request of a suspended submit settles without success (transport failure,
  or a status outside 200 to 299), the handler raises one alert carrying the error,
  sends nothing, and changes nothing but the button, which is enabled again with its
  label: the panels, the result slots and the timers are as before.
\<close>

theorem failed_dispatch:
  assumes "i < length (pending s)" and "non_success oc"
    and "step (On_response i oc) s = (s', out)"
  shows "out = [Alert (''Error: '' @
                  (case oc of
                     Transport_failure m \<Rightarrow> m
                   | Http status b \<Rightarrow> ''HTTP error! status: '' @ digits status))] \<and>
         requests out = [] \<and>
         s' = s\<lparr> pending := take i (pending s) @ drop (Suc i) (pending s),
                 checkBtn_disabled := False, checkBtn_text := ''Check Content'' \<rparr> \<and>
         uploader_active s' = uploader_active s \<and>
         results_active s' = results_active s \<and>
         view s' = view s \<and> timers s' = timers s \<and>
         \<not> checkBtn_disabled s'"
proof -
  have r: "analyze_result a oc =
      Inl (case oc of
             Transport_failure m \<Rightarrow> m
           | Http status b \<Rightarrow> ''HTTP error! status: '' @ digits status)" for a
    using assms(2)
    by (cases oc; cases a)
      (simp_all add: analyze_result_def analyzeVideo_result_def analyzeImage_result_def
        analyzeDocument_result_def)
  from assms(1,3) show ?thesis
    by (auto simp: checkBtn_settle_def finally_clause_def r)
qed

theorem failed_dispatch_witness:
  "snd (step (On_response 0 (Http 500 (Unusable [])))
     (fst (run [On_change (Some sample_file), On_check] (page_load sample_page))))
     = [Alert ''Error: HTTP error! status: 500''] \<and>
   uploader_active (fst (step (On_response 0 (Http 500 (Unusable [])))
     (fst (run [On_change (Some sample_file), On_check] (page_load sample_page))))) \<and>
   \<not> results_active (fst (step (On_response 0 (Http 500 (Unusable [])))
     (fst (run [On_change (Some sample_file), On_check] (page_load sample_page)))))"
proof -
  let ?s = "fst (run [On_change (Some sample_file), On_check] (page_load sample_page))"
  have p: "0 < length (pending ?s)"
    by (simp add: handler_defs load_defs)
  have n: "non_success (Http 500 (Unusable []))"
    by (simp add: response_ok_def)
  have u: "uploader_active ?s" "\<not> results_active ?s"
    by (simp_all add: handler_defs load_defs)
  from failed_dispatch [OF p n surjective_pairing] u
  show ?thesis
    by (simp add: digits_500 del: run.simps step.simps)
qed

subsection \<open>The two panels\<close>

lemma one_panel_step: "one_panel s \<Longrightarrow> one_panel (fst (step e s))"
  by (cases e)
    (auto simp: one_panel_def handler_defs Let_def
      split: option.splits list.splits tab.splits sum.splits)

lemma one_panel_run: "one_panel s \<Longrightarrow> one_panel (fst (run es s))"
proof (induction es arbitrary: s)
  case Nil
  then show ?case by simp
next
  case (Cons e es)
  from Cons.prems have "one_panel (fst (step e s))"
    by (rule one_panel_step)
  then have "one_panel (fst (run es (fst (step e s))))"
    by (rule Cons.IH)
  then show ?case
    by (simp only: fst_run_Cons)
qed

text \<open>
  The backend-integrated controller keeps exactly one panel active in every state it
  reaches: the upload panel at load and after Clear, the results panel after a
  successful response.
\<close>

lemma backend_one_panel: "one_panel (fst (run es (page_load page)))"
  by (rule one_panel_run) (simp add: one_panel_def page_load_def initializeApp_def)

text \<open>So does the static prototype: its submit hides the upload panel.\<close>

lemma prototype_check_one_panel:
  "\<not> p_uploader_active (fst (p_checkBtn_click s)) \<and> p_results_active (fst (p_checkBtn_click s))"
  by (simp add: p_checkBtn_click_def)

text \<open>
  C2 fails on \<^verbatim>\<open>Main.js\<close>. On any document, the first click on Check after the load
  leaves the upload panel and the results panel both active: the handler adds the
  class to both, where the other two versions remove it from the upload panel.
\<close>

theorem main_check_activates_both_panels:
  "m_uploader_active (main_load page) \<and> \<not> m_results_active (main_load page) \<and>
   m_uploader_active (fst (m_step M_check (main_load page))) \<and>
   m_results_active (fst (m_step M_check (main_load page)))"
  by (simp add: m_checkBtn_click_def m_document_click_def main_load_def updateUploader_def)

subsection \<open>Switching the mode\<close>

text \<open>
  C3, as the code has it. In \<^verbatim>\<open>Main.js\<close> a click on a tab rebuilds the input widget:
  a text area for the text mode, a file input accepting images or videos for the other
  two, and nothing is staged in the new widget. In the backend-integrated controller
  a click on a tab sets the mode and the extension list that the single file input
  accepts, and keeps the staged file, the chosen file of the input and the displayed
  file name.
\<close>

theorem mode_switch:
  "currentMode (fst (m_step (M_tab t) m)) = t \<and>
   \<not> staged (dropArea (fst (m_step (M_tab t) m))) \<and>
   (case dropArea (fst (m_step (M_tab t) m)) of
      TextArea v \<Rightarrow> t = Text \<and> v = []
    | FileInput fw \<Rightarrow>
        t \<noteq> Text \<and> files fw = None \<and> preview_fileName fw = ''No file selected'' \<and>
        accept fw = (if t = Image then ''image/*'' else ''video/*'')) \<and>
   currentTab (fst (step (On_tab t) s)) = t \<and>
   fileInput_accept (fst (step (On_tab t) s)) =
     (case t of
        Text \<Rightarrow> ''.txt,.pdf,.docx,.doc''
      | Image \<Rightarrow> ''.jpg,.jpeg,.png,.webp,.bmp''
      | Video \<Rightarrow> ''.mp4,.mov,.avi,.mkv,.webm'') \<and>
   currentFile (fst (step (On_tab t) s)) = currentFile s \<and>
   fileInput_files (fst (step (On_tab t) s)) = fileInput_files s \<and>
   fileName (fst (step (On_tab t) s)) = fileName s"
  by (simp add: m_tab_click_def m_document_click_def updateUploader_def staged_def
      tab_click_def document_click_def)

theorem mode_switch_witness:
  "\<not> staged (dropArea (fst (m_run [M_change (Some sample_file), M_tab Image]
      (main_load sample_main_page)))) \<and>
   currentFile (fst (step (On_tab Image)
      (fst (run [On_change (Some sample_file)] (page_load sample_page))))) = Some sample_file"
proof -
  have "currentFile (fst (run [On_change (Some sample_file)] (page_load sample_page)))
      = Some sample_file"
    by (simp add: handler_defs load_defs)
  moreover have "fst (m_run [M_change (Some sample_file), M_tab Image] (main_load sample_main_page))
      = fst (m_step (M_tab Image)
          (fst (m_step (M_change (Some sample_file)) (main_load sample_main_page))))"
    by (simp split: prod.splits)
  ultimately show ?thesis
    using mode_switch [of Image
        "fst (m_step (M_change (Some sample_file)) (main_load sample_main_page))"
        "fst (run [On_change (Some sample_file)] (page_load sample_page))"]
    by (simp del: run.simps step.simps m_step.simps m_run.simps)
qed

text \<open>
  The claim as the specification words it fails on the backend-integrated controller:
  a video file staged under the video tab is still staged after the switch to the
  image tab, and the next submit sends it to the image endpoint.
\<close>

theorem mode_switch_counterexample:
  "currentTab (fst (run [On_change (Some sample_file), On_tab Image] (page_load sample_page)))
     = Image \<and>
   currentFile (fst (run [On_change (Some sample_file), On_tab Image] (page_load sample_page)))
     = Some sample_file \<and>
   fileName (fst (run [On_change (Some sample_file), On_tab Image] (page_load sample_page)))
     = ''clip.mp4'' \<and>
   requests (snd (run [On_change (Some sample_file), On_tab Image, On_check]
      (page_load sample_page)))
     = [\<lparr> req_method = ''POST'',
          req_url = ''http://127.0.0.1:8000/api/detect-image?language=en'',
          req_file = sample_file \<rparr>]"
  by (simp add: handler_defs load_defs request_defs API_BASE_URL_def)

subsection \<open>Presenting a result\<close>

lemma Math_round_nearest:
  "of_int (Math_round c) - 1 / 2 \<le> c \<and> c < of_int (Math_round c) + 1 / 2"
proof -
  have "of_int \<lfloor>c + 1 / 2\<rfloor> \<le> c + 1 / 2" and "c + 1 / 2 < of_int \<lfloor>c + 1 / 2\<rfloor> + 1"
    by linarith+
  then show ?thesis
    unfolding Math_round_def by linarith
qed

lemma Math_round_eqI:
  "of_int n - 1 / 2 \<le> c \<Longrightarrow> c < of_int n + 1 / 2 \<Longrightarrow> Math_round c = n"
  unfolding Math_round_def by (rule floor_unique) linarith+

lemma digit_char:
  assumes "k < 10"
  shows "digit_value (''0123456789'' ! k) = k"
    and "''0123456789'' ! k \<in> set ''0123456789''"
    and "0 < k \<Longrightarrow> ''0123456789'' ! k \<noteq> CHR ''0''"
proof -
  from assms have "k \<in> {0, 1, 2, 3, 4, 5, 6, 7, 8, 9}"
    by auto
  then show "digit_value (''0123456789'' ! k) = k"
    and "''0123456789'' ! k \<in> set ''0123456789''"
    and "0 < k \<Longrightarrow> ''0123456789'' ! k \<noteq> CHR ''0''"
    by (auto simp: digit_value_def)
qed

lemma digits_not_Nil: "digits n \<noteq> []"
  by (subst digits.simps) simp

lemma decimal_value_digits: "decimal_value (digits n) = n"
proof (induction n rule: digits.induct)
  case (1 n)
  show ?case
  proof (cases "n < 10")
    case True
    then show ?thesis
      by (subst digits.simps) (simp add: decimal_value_def digit_char)
  next
    case False
    with 1 have "decimal_value (digits (n div 10)) = n div 10"
      by simp
    with False show ?thesis
      by (subst digits.simps) (simp add: decimal_value_def digit_char)
  qed
qed

lemma digits_chars: "set (digits n) \<subseteq> set ''0123456789''"
proof (induction n rule: digits.induct)
  case (1 n)
  show ?case
  proof (cases "n < 10")
    case True
    with digit_char(2) [of n] show ?thesis
      by (subst digits.simps) simp
  next
    case False
    with 1 have "set (digits (n div 10)) \<subseteq> set ''0123456789''"
      by simp
    with digit_char(2) [of "n mod 10"] False show ?thesis
      by (subst digits.simps) simp
  qed
qed

lemma digits_no_leading_zero: "0 < n \<Longrightarrow> hd (digits n) \<noteq> CHR ''0''"
proof (induction n rule: digits.induct)
  case (1 n)
  show ?case
  proof (cases "n < 10")
    case True
    with digit_char(3) [of n] "1.prems" show ?thesis
      by (subst digits.simps) simp
  next
    case False
    then have "0 < n div 10"
      by simp
    with 1 False have "hd (digits (n div 10)) \<noteq> CHR ''0''"
      by simp
    with False show ?thesis
      by (subst digits.simps) (simp add: digits_not_Nil)
  qed
qed

lemma digits_0: "digits 0 = ''0''"
  by (subst digits.simps) simp

lemma String_of_decimal:
  "decimal_value (String_of (int n)) = n \<and>
   set (String_of (int n)) \<subseteq> set ''0123456789'' \<and>
   String_of 0 = ''0'' \<and>
   hd (String_of (int (Suc n))) \<noteq> CHR ''0'' \<and>
   String_of (- int (Suc n)) = CHR ''-'' # String_of (int (Suc n))"
proof -
  have nonneg: "String_of (int k) = digits k" for k
    by (simp add: String_of_def)
  have neg: "String_of (- int (Suc k)) = CHR ''-'' # digits (Suc k)" for k
    by (simp add: String_of_def del: of_nat_Suc)
  have zero: "String_of 0 = ''0''"
    using nonneg [of 0] by (simp add: digits_0)
  from digits_chars [of n] digits_no_leading_zero [of "Suc n"] zero show ?thesis
    by (simp only: nonneg neg decimal_value_digits) simp
qed

lemma String_of_values: "String_of 91 = ''91''" "String_of 92 = ''92''" "String_of 88 = ''88''"
  by (simp_all add: String_of_def digits.simps)

text \<open>
  What a successful response leaves in the view, whatever the analyser and the state.
\<close>

lemma settle_success_view:
  assumes "response_ok status"
  shows "\<exists>r. analyze_result a (Http status (Data d)) = Inr r \<and>
           isAI r = is_ai_generated (detection d) \<and>
           confidence r = confidence_score (detection d) \<and>
           message r = or_else (dr_message (detection d)) [] \<and>
           confidenceLabel r = or_else (confidence_label (detection d)) ''Confidence'' \<and>
           view (fst (checkBtn_settle a (Http status (Data d)) s)) = displayResults_view r"
  using assms
  by (cases a)
    (simp_all add: checkBtn_settle_def analyze_result_def analyzeVideo_result_def
      analyzeImage_result_def analyzeDocument_result_def finally_clause_def displayResults_def)

text \<open>
  C6. The presenter writes one of two themes, chosen by \<^verbatim>\<open>isAI\<close> alone: the warning
  icon, its two colours and the class \<^verbatim>\<open>ai-result\<close>, or the check mark, its two colours
  and the class \<^verbatim>\<open>human-result\<close>. The markup it writes into the heading is the heading
  text followed by the badge element, whose content is the confidence label, a colon,
  the rounded confidence and a percent sign. The rounded confidence is the integer
  nearest to the score, the upper one on a tie, and it is written in decimal digits
  without leading zero, with a minus sign when negative. A successful response with
  \<^verbatim>\<open>is_ai_generated\<close> true, the score 91.4 (as the decimal fraction, and as the double
  nearest to it) and neither message nor confidence label gives the warning theme and
  the badge \<^verbatim>\<open>Confidence: 91%\<close>; the score 91.5 gives 92%.
\<close>

theorem presenter_theme_and_percent:
  "statusIcon (displayResults_view (r\<lparr>isAI := True\<rparr>)) = Warning_icon \<and>
   statusIcon_backgroundColor (displayResults_view (r\<lparr>isAI := True\<rparr>)) = ''#FFE8E8'' \<and>
   statusIcon_color (displayResults_view (r\<lparr>isAI := True\<rparr>)) = ''#D32F2F'' \<and>
   resultCard_ai_result (displayResults_view (r\<lparr>isAI := True\<rparr>)) \<and>
   \<not> resultCard_human_result (displayResults_view (r\<lparr>isAI := True\<rparr>)) \<and>
   statusIcon (displayResults_view (r\<lparr>isAI := False\<rparr>)) = Check_icon \<and>
   statusIcon_backgroundColor (displayResults_view (r\<lparr>isAI := False\<rparr>)) = ''#E6F7E6'' \<and>
   statusIcon_color (displayResults_view (r\<lparr>isAI := False\<rparr>)) = ''#74D480'' \<and>
   \<not> resultCard_ai_result (displayResults_view (r\<lparr>isAI := False\<rparr>)) \<and>
   resultCard_human_result (displayResults_view (r\<lparr>isAI := False\<rparr>)) \<and>
   resultHeading_innerHTML (displayResults_view r) =
     (if message r \<noteq> [] then message r
      else if isAI r then ''Likely AI-Generated'' else ''Likely Human-Created'') @
     '' <span class='' @ [CHR 0x22] @ ''badge'' @ [CHR 0x22] @ '' id='' @ [CHR 0x22] @
     ''confidenceBadge'' @ [CHR 0x22] @ ''>'' @
     (if confidenceLabel r \<noteq> [] then confidenceLabel r else ''Confidence'') @ '': '' @
     String_of (Math_round (confidence r)) @ ''%</span>'' \<and>
   of_int (Math_round c) - 1 / 2 \<le> c \<and> c < of_int (Math_round c) + 1 / 2 \<and>
   decimal_value (String_of (int n)) = n \<and>
   set (String_of (int n)) \<subseteq> set ''0123456789'' \<and>
   String_of 0 = ''0'' \<and>
   hd (String_of (int (Suc n))) \<noteq> CHR ''0'' \<and>
   String_of (- int (Suc n)) = CHR ''-'' # String_of (int (Suc n)) \<and>
   view (displayResults r s) = displayResults_view r \<and>
   statusIcon (view (fst (checkBtn_settle a
     (Http 200 (Data (d\<lparr>detection :=
        \<lparr>is_ai_generated = True, confidence_score = 914 / 10, dr_message = None,
          dr_warning = w, confidence_label = None\<rparr>\<rparr>))) s))) = Warning_icon \<and>
   resultCard_ai_result (view (fst (checkBtn_settle a
     (Http 200 (Data (d\<lparr>detection :=
        \<lparr>is_ai_generated = True, confidence_score = 914 / 10, dr_message = None,
          dr_warning = w, confidence_label = None\<rparr>\<rparr>))) s))) \<and>
   resultHeading_innerHTML (view (fst (checkBtn_settle a
     (Http 200 (Data (d\<lparr>detection :=
        \<lparr>is_ai_generated = True, confidence_score = 914 / 10, dr_message = None,
          dr_warning = w, confidence_label = None\<rparr>\<rparr>))) s))) =
     ''Likely AI-Generated <span class='' @ [CHR 0x22] @ ''badge'' @ [CHR 0x22] @ '' id='' @
     [CHR 0x22] @ ''confidenceBadge'' @ [CHR 0x22] @ ''>Confidence: 91%</span>'' \<and>
   resultHeading_innerHTML (view (fst (checkBtn_settle a
     (Http 200 (Data (d\<lparr>detection :=
        \<lparr>is_ai_generated = True, confidence_score = 3215851608919245 / 35184372088832,
          dr_message = None, dr_warning = w, confidence_label = None\<rparr>\<rparr>))) s))) =
     ''Likely AI-Generated <span class='' @ [CHR 0x22] @ ''badge'' @ [CHR 0x22] @ '' id='' @
     [CHR 0x22] @ ''confidenceBadge'' @ [CHR 0x22] @ ''>Confidence: 91%</span>'' \<and>
   resultHeading_innerHTML (view (fst (checkBtn_settle a
     (Http 200 (Data (d\<lparr>detection :=
        \<lparr>is_ai_generated = True, confidence_score = 183 / 2, dr_message = None,
          dr_warning = w, confidence_label = None\<rparr>\<rparr>))) s))) =
     ''Likely AI-Generated <span class='' @ [CHR 0x22] @ ''badge'' @ [CHR 0x22] @ '' id='' @
     [CHR 0x22] @ ''confidenceBadge'' @ [CHR 0x22] @ ''>Confidence: 92%</span>''"
proof -
  have r1: "Math_round (914 / 10) = 91"
    by (rule Math_round_eqI) simp_all
  have r2: "Math_round (3215851608919245 / 35184372088832) = 91"
    by (rule Math_round_eqI) simp_all
  have r3: "Math_round (183 / 2) = 92"
    by (rule Math_round_eqI) simp_all
  have themes: "statusIcon (displayResults_view (r\<lparr>isAI := True\<rparr>)) = Warning_icon \<and>
   statusIcon_backgroundColor (displayResults_view (r\<lparr>isAI := True\<rparr>)) = ''#FFE8E8'' \<and>
   statusIcon_color (displayResults_view (r\<lparr>isAI := True\<rparr>)) = ''#D32F2F'' \<and>
   resultCard_ai_result (displayResults_view (r\<lparr>isAI := True\<rparr>)) \<and>
   \<not> resultCard_human_result (displayResults_view (r\<lparr>isAI := True\<rparr>)) \<and>
   statusIcon (displayResults_view (r\<lparr>isAI := False\<rparr>)) = Check_icon \<and>
   statusIcon_backgroundColor (displayResults_view (r\<lparr>isAI := False\<rparr>)) = ''#E6F7E6'' \<and>
   statusIcon_color (displayResults_view (r\<lparr>isAI := False\<rparr>)) = ''#74D480'' \<and>
   \<not> resultCard_ai_result (displayResults_view (r\<lparr>isAI := False\<rparr>)) \<and>
   resultCard_human_result (displayResults_view (r\<lparr>isAI := False\<rparr>))" for r
    by (simp add: displayResults_view_def Let_def)
  have markup: "resultHeading_innerHTML (displayResults_view r) =
     (if message r \<noteq> [] then message r
      else if isAI r then ''Likely AI-Generated'' else ''Likely Human-Created'') @
     '' <span class='' @ [CHR 0x22] @ ''badge'' @ [CHR 0x22] @ '' id='' @ [CHR 0x22] @
     ''confidenceBadge'' @ [CHR 0x22] @ ''>'' @
     (if confidenceLabel r \<noteq> [] then confidenceLabel r else ''Confidence'') @ '': '' @
     String_of (Math_round (confidence r)) @ ''%</span>''" for r
    by (simp add: displayResults_view_def heading_template_def or_str_def Let_def)
  have v: "view (displayResults r s) = displayResults_view r"
    by (simp add: displayResults_def)
  have ex: "statusIcon (view (fst (checkBtn_settle a
     (Http 200 (Data (d\<lparr>detection :=
        \<lparr>is_ai_generated = True, confidence_score = x, dr_message = None,
          dr_warning = w, confidence_label = None\<rparr>\<rparr>))) s))) = Warning_icon \<and>
   resultCard_ai_result (view (fst (checkBtn_settle a
     (Http 200 (Data (d\<lparr>detection :=
        \<lparr>is_ai_generated = True, confidence_score = x, dr_message = None,
          dr_warning = w, confidence_label = None\<rparr>\<rparr>))) s))) \<and>
   resultHeading_innerHTML (view (fst (checkBtn_settle a
     (Http 200 (Data (d\<lparr>detection :=
        \<lparr>is_ai_generated = True, confidence_score = x, dr_message = None,
          dr_warning = w, confidence_label = None\<rparr>\<rparr>))) s))) =
     ''Likely AI-Generated <span class='' @ [CHR 0x22] @ ''badge'' @ [CHR 0x22] @ '' id='' @
     [CHR 0x22] @ ''confidenceBadge'' @ [CHR 0x22] @ ''>Confidence: '' @
     String_of (Math_round x) @ ''%</span>''" for x
  proof -
    let ?d = "d\<lparr>detection :=
        \<lparr>is_ai_generated = True, confidence_score = x, dr_message = None,
          dr_warning = w, confidence_label = None\<rparr>\<rparr>"
    have "response_ok 200"
      by (simp add: response_ok_def)
    from settle_success_view [OF this, of a ?d s]
    obtain r' where r': "isAI r'" "confidence r' = x" "message r' = []"
        "confidenceLabel r' = ''Confidence''"
        "view (fst (checkBtn_settle a (Http 200 (Data ?d)) s)) = displayResults_view r'"
      by (auto simp: or_else_def)
    from r'(1) have "r' = r'\<lparr>isAI := True\<rparr>"
      by simp
    with themes [of r'] have "statusIcon (displayResults_view r') = Warning_icon"
      and "resultCard_ai_result (displayResults_view r')"
      by (simp_all add: displayResults_view_def Let_def r'(1))
    with markup [of r'] r' show ?thesis
      by simp
  qed
  from ex [of "914 / 10"] ex [of "3215851608919245 / 35184372088832"] ex [of "183 / 2"]
    themes [of r] markup [of r] v Math_round_nearest [of c] String_of_decimal [of n]
  show ?thesis
    by (simp only: r1 r2 r3 String_of_values) simp
qed

subsection \<open>Defaults for absent fields\<close>

text \<open>
  C7, as the code has it. For a successful response that reports human-created content
  and has no message and no warning, the analyser puts empty strings for both and the
  label \<^verbatim>\<open>Confidence\<close> for an absent confidence label, and the presenter writes the
  heading \<^verbatim>\<open>Likely Human-Created\<close>, the same for every mode, followed by the badge,
  and the default description of the mode. Both are the fixed English texts of the
  script: the view is the same whatever the state, and so whatever the active language.
\<close>

theorem human_defaults:
  assumes "response_ok status"
    and "\<not> is_ai_generated (detection d)"
    and "dr_message (detection d) = None" and "dr_warning (detection d) = None"
  shows "\<exists>r. analyze_result a (Http status (Data d)) = Inr r \<and>
           message r = [] \<and> warning r = [] \<and>
           confidenceLabel r = or_else (confidence_label (detection d)) ''Confidence'' \<and>
           or_else None ''Confidence'' = ''Confidence'' \<and>
           view (fst (checkBtn_settle a (Http status (Data d)) s)) = displayResults_view r \<and>
           resultHeading_innerHTML (displayResults_view r) =
             ''Likely Human-Created <span class='' @ [CHR 0x22] @ ''badge'' @ [CHR 0x22] @
             '' id='' @ [CHR 0x22] @ ''confidenceBadge'' @ [CHR 0x22] @ ''>'' @
             or_else (confidence_label (detection d)) ''Confidence'' @ '': '' @
               String_of (Math_round (confidence_score (detection d))) @ ''%</span>'' \<and>
           resultDesc (displayResults_view r) =
             (case a of
                AnalyzeVideo \<Rightarrow>
                  ''The video displays natural motion, consistent lighting across frames, and authentic audio synchronization.''
              | AnalyzeImage \<Rightarrow>
                  ''This image shows characteristics of authentic photography with natural lighting and proper perspective.''
              | AnalyzeDocument \<Rightarrow>
                  ''This text demonstrates natural human writing patterns with varied sentence structure and personal voice.'')"
  using assms
  by (cases a)
      (auto simp: checkBtn_settle_def analyze_result_def analyzeVideo_result_def
        analyzeImage_result_def analyzeDocument_result_def finally_clause_def
        displayResults_def displayResults_view_def heading_template_def Let_def
        or_else_def or_str_def
        split: option.splits)

theorem human_defaults_witness:
  "resultHeading_innerHTML (view (fst (checkBtn_settle AnalyzeImage (Http 200 (Data sample_data))
      (page_load sample_page)))) =
     ''Likely Human-Created <span class='' @ [CHR 0x22] @ ''badge'' @ [CHR 0x22] @
     '' id='' @ [CHR 0x22] @ ''confidenceBadge'' @ [CHR 0x22] @ ''>Confidence: 88%</span>'' \<and>
   resultDesc (view (fst (checkBtn_settle AnalyzeImage (Http 200 (Data sample_data))
      (page_load sample_page)))) =
     ''This image shows characteristics of authentic photography with natural lighting and proper perspective.''"
proof -
  have ok: "response_ok 200"
    by (simp add: response_ok_def)
  have h: "\<not> is_ai_generated (detection sample_data)"
    and m: "dr_message (detection sample_data) = None"
    and w: "dr_warning (detection sample_data) = None"
    by (simp_all add: sample_data_def)
  have c: "confidence_label (detection sample_data) = None"
    "confidence_score (detection sample_data) = 438 / 5"
    by (simp_all add: sample_data_def)
  have r: "Math_round (438 / 5) = 88"
    by (rule Math_round_eqI) simp_all
  from human_defaults [OF ok h m w, of AnalyzeImage "page_load sample_page"]
  show ?thesis
    by (auto simp: c r String_of_values or_else_def)
qed

text \<open>
  The claim as the specification words it fails: with isiZulu active, which the static
  texts show, a human-created video result without message and warning is presented
  with the English heading and description, exactly the view shown with English
  active; and the default heading is the same for an image as for a video.
\<close>

theorem human_defaults_counterexample:
  "currentLanguage (fst (run [On_langItem ''isiZulu'', On_change (Some sample_file), On_check,
      On_response 0 (Http 200 (Data sample_data))] (page_load sample_page))) = ''zu'' \<and>
   resultsTitle_text (labels (fst (run [On_langItem ''isiZulu'', On_change (Some sample_file),
      On_check, On_response 0 (Http 200 (Data sample_data))] (page_load sample_page))))
     = ''Imiphumela Yokuhlola'' \<and>
   resultHeading_innerHTML (view (fst (run [On_langItem ''isiZulu'',
      On_change (Some sample_file), On_check, On_response 0 (Http 200 (Data sample_data))]
      (page_load sample_page))))
     = ''Likely Human-Created <span class='' @ [CHR 0x22] @ ''badge'' @ [CHR 0x22] @
       '' id='' @ [CHR 0x22] @ ''confidenceBadge'' @ [CHR 0x22] @ ''>Confidence: 88%</span>'' \<and>
   resultDesc (view (fst (run [On_langItem ''isiZulu'', On_change (Some sample_file),
      On_check, On_response 0 (Http 200 (Data sample_data))] (page_load sample_page))))
     = ''The video displays natural motion, consistent lighting across frames, and authentic audio synchronization.'' \<and>
   view (fst (run [On_langItem ''isiZulu'', On_change (Some sample_file), On_check,
      On_response 0 (Http 200 (Data sample_data))] (page_load sample_page)))
     = view (fst (run [On_langItem ''English'', On_change (Some sample_file), On_check,
      On_response 0 (Http 200 (Data sample_data))] (page_load sample_page))) \<and>
   resultHeading_innerHTML (view (fst (run [On_langItem ''isiZulu'',
      On_change (Some sample_file), On_tab Image, On_check,
      On_response 0 (Http 200 (Data sample_data))] (page_load sample_page))))
     = ''Likely Human-Created <span class='' @ [CHR 0x22] @ ''badge'' @ [CHR 0x22] @
       '' id='' @ [CHR 0x22] @ ''confidenceBadge'' @ [CHR 0x22] @ ''>Confidence: 88%</span>''"
proof -
  have r: "Math_round (438 / 5) = 88"
    by (rule Math_round_eqI) simp_all
  show ?thesis
    by (simp add: handler_defs load_defs analyze_result_def analyzeVideo_result_def
        analyzeImage_result_def response_ok_def sample_data_def displayResults_view_def
        heading_template_def or_else_def or_str_def trans_zu_def r String_of_values)
qed

subsection \<open>Changing the language\<close>

text \<open>
  A click on a language item rewrites every static text slot from the table of the
  chosen language, in any state.
\<close>

lemma language_rewrites_static_texts:
  "labels (fst (step (On_langItem l) s)) =
     (let code = (case LANGUAGE_MAP l of Some c \<Rightarrow> c | None \<Rightarrow> ''en'');
          trans = (case allTranslations code of Some t \<Rightarrow> t | None \<Rightarrow> trans_en)
      in \<lparr> protectBtn_text = heroTitle trans,
           heroDesc_text = heroDesc trans,
           textTab_text = tabText trans,
           imageTab_text = tabImage trans,
           videoTab_text = tabVideo trans,
           resultsTitle_text = resultsTitle trans,
           acc1Header_text = whatYouCanDo trans @ '' '',
           acc2Header_text = howToSpot trans @ '' '',
           footerPill_text = footerText trans \<rparr>)"
  by (simp add: langItem_click_def translatePage_def translateUIElements_def Let_def)

text \<open>
  The caption under the file name is rewritten only while it contains the English word
  \<^verbatim>\<open>selected\<close>; no other table has a caption with that word.
\<close>

lemma caption_gate:
  "fileSub (fst (step (On_langItem l) s)) =
     (if str_includes (fileSub s) ''selected'' then
        (let code = (case LANGUAGE_MAP l of Some c \<Rightarrow> c | None \<Rightarrow> ''en'');
             trans = (case allTranslations code of Some t \<Rightarrow> t | None \<Rightarrow> trans_en)
         in if fileName s \<noteq> ''No file selected'' then fileSelected trans
            else noFileSelected trans)
      else fileSub s)"
  by (simp add: langItem_click_def translatePage_def translateUIElements_def Let_def)

text \<open>
  Hence, on any document and for any staged file, the caption after the choice of
  isiZulu and then of Afrikaans is the isiZulu one or the document's own, never a
  function of the second choice.
\<close>

lemma caption_after_two_switches:
  "fileSub (fst (run [On_change (Some f), On_langItem ''isiZulu'', On_langItem ''Afrikaans'']
      (page_load page))) =
     (if str_includes (fileSub page) ''selected'' then
        (if file_name f \<noteq> ''No file selected'' then fileSelected trans_zu
         else noFileSelected trans_zu)
      else fileSub page)"
  by (simp add: handler_defs page_load_def initializeApp_def LANGUAGE_MAP_def
      allTranslations_def Let_def trans_zu_def startsWith_def)

text \<open>
  C9 fails on the caption. With a file staged and a caption in English, the choice of
  isiZulu rewrites the caption; the choice of Afrikaans after it rewrites the static
  texts, the footer among them, and leaves the caption in isiZulu.
\<close>

theorem caption_stays_in_first_language:
  "currentFile (fst (run [On_change (Some sample_file), On_langItem ''isiZulu'',
      On_langItem ''Afrikaans''] (page_load sample_page))) = Some sample_file \<and>
   currentLanguage (fst (run [On_change (Some sample_file), On_langItem ''isiZulu'',
      On_langItem ''Afrikaans''] (page_load sample_page))) = ''af'' \<and>
   footerPill_text (labels (fst (run [On_change (Some sample_file), On_langItem ''isiZulu'',
      On_langItem ''Afrikaans''] (page_load sample_page)))) = footerText trans_af \<and>
   fileSub (fst (run [On_change (Some sample_file), On_langItem ''isiZulu''] (page_load sample_page)))
     = ''Ifayela likhethiwe'' \<and>
   fileSub (fst (run [On_change (Some sample_file), On_langItem ''isiZulu'',
      On_langItem ''Afrikaans''] (page_load sample_page))) = ''Ifayela likhethiwe'' \<and>
   fileSub (fst (run [On_change (Some sample_file), On_langItem ''isiZulu'',
      On_langItem ''Afrikaans''] (page_load sample_page))) \<noteq> fileSelected trans_af"
  by (simp add: handler_defs load_defs trans_zu_def trans_af_def)

end
